theory Spec2Isabelle
  imports Main
begin

section \<open>The account manager of Kaidan (src/AccountManager.cpp)\<close>

text \<open>
  The class \<open>AccountManager\<close> holds the credentials of the XMPP account (bare JID,
  resource prefix and resource, password, custom host and port), a flag telling whether
  they are new since the last login, and a pointer to the \<open>QSettings\<close> object they are
  loaded from and stored to. Its methods are translated one by one, statement by
  statement, as functions on a record of the object's members.
\<close>

subsection \<open>Qt values\<close>

text \<open>
  A \<open>QString\<close> is a list of characters; \<open>isEmpty()\<close> is \<open>s = []\<close>, the default
  constructed string \<open>{}\<close> and a cleared string are \<open>[]\<close>, and the string builder's
  \<open>%\<close> is \<open>@\<close>.
\<close>

type_synonym QString = string

text \<open>
  A \<open>QVariant\<close> as \<open>QSettings\<close> hands it out: invalid (what \<open>value(key)\<close> returns for
  a key that is not stored), or a string, an int or a bool.
\<close>

datatype QVariant = Invalid | VString QString | VInt int | VBool bool

subsection \<open>What the source takes from files that are not given\<close>

text \<open>
  \<open>Globals.h\<close>, \<open>AccountManager.h\<close> and the Qt and QXmpp libraries are not part of the
  sources. Their constants and functions are parameters of the model, collected in one
  record:
  \<^item> the keys of the settings file (the macros \<open>KAIDAN_SETTINGS_...\<close> of \<open>Globals.h\<close>) and
    the default resource prefix \<open>KAIDAN_JID_RESOURCE_DEFAULT_PREFIX\<close>;
  \<^item> the default argument of \<open>generateJidResourceWithRandomSuffix\<close>, declared in
    \<open>AccountManager.h\<close>;
  \<^item> \<open>fromBase64\<close>: what \<open>QByteArray::fromBase64(s.toUtf8())\<close>, converted back to a
    \<open>QString\<close>, gives for the string \<open>s\<close>; \<open>toBase64\<close>: what
    \<open>QString::fromUtf8(s.toUtf8().toBase64())\<close> gives;
  \<^item> the conversions between strings and numbers that \<open>QVariant\<close> uses:
    \<open>QString::toInt\<close>, \<open>QString::number\<close> and \<open>QString::toLower\<close>.
  Every theorem below holds for every value of this record.
\<close>

record env =
  KAIDAN_SETTINGS_AUTH_ONLINE :: QString
  KAIDAN_SETTINGS_AUTH_JID :: QString
  KAIDAN_SETTINGS_AUTH_JID_RESOURCE_PREFIX :: QString
  KAIDAN_SETTINGS_AUTH_PASSWD :: QString
  KAIDAN_SETTINGS_AUTH_HOST :: QString
  KAIDAN_SETTINGS_AUTH_PORT :: QString
  KAIDAN_SETTINGS_AUTH_USE_CUSTOM :: QString
  KAIDAN_SETTINGS_AUTH_PASSWD_VISIBILITY :: QString
  KAIDAN_SETTINGS_NOTIFICATIONS_MUTED :: QString
  KAIDAN_SETTINGS_FAVORITE_EMOJIS :: QString
  KAIDAN_JID_RESOURCE_DEFAULT_PREFIX :: QString
  numberOfRandomSuffixCharacters :: nat
  fromBase64 :: "QString \<Rightarrow> QString"
  toBase64 :: "QString \<Rightarrow> QString"
  QString_toInt :: "QString \<Rightarrow> int"
  QString_number :: "int \<Rightarrow> QString"
  QString_toLower :: "QString \<Rightarrow> QString"

text \<open>
  The conversions of \<open>QVariant\<close>, as Qt documents them: an invalid variant converts to
  the empty string, to 0 and to false; a string converts to true unless its lower-case
  content is empty, \<open>0\<close> or \<open>false\<close>.
\<close>

fun toString :: "env \<Rightarrow> QVariant \<Rightarrow> QString" where
  "toString E Invalid = []"
| "toString E (VString s) = s"
| "toString E (VInt i) = QString_number E i"
| "toString E (VBool b) = (if b then ''true'' else ''false'')"

fun toInt :: "env \<Rightarrow> QVariant \<Rightarrow> int" where
  "toInt E Invalid = 0"
| "toInt E (VString s) = QString_toInt E s"
| "toInt E (VInt i) = i"
| "toInt E (VBool b) = (if b then 1 else 0)"

fun toBool :: "env \<Rightarrow> QVariant \<Rightarrow> bool" where
  "toBool E Invalid = False"
| "toBool E (VString s) =
     (QString_toLower E s \<noteq> [] \<and> QString_toLower E s \<noteq> ''0'' \<and> QString_toLower E s \<noteq> ''false'')"
| "toBool E (VInt i) = (i \<noteq> 0)"
| "toBool E (VBool b) = b"

subsection \<open>The state\<close>

text \<open>
  The signals of the class, its data members, and the events a method leaves behind:
  taking and releasing \<open>m_mutex\<close>, reading and writing a data member, emitting a signal.
\<close>

datatype signal =
  jidChanged | passwordChanged | hostChanged | portChanged
  | customConnectionSettingsEnabledChanged | newCredentialsNeeded

datatype member =
  M_jid | M_jidResourcePrefix | M_jidResource | M_password | M_host | M_port
  | M_customConnectionSettingsEnabled | M_hasNewCredentials

datatype event = Lock | Unlock | Read member | Write member | Emit signal

text \<open>
  The members of the object, the settings store behind \<open>m_settings\<close> (a key-value store
  with \<open>value\<close>, \<open>setValue\<close> and \<open>remove\<close>), the events so far (oldest first), and the
  random source of \<open>QXmppUtils::generateStanzaHash\<close>: \<open>stanzaHash k n\<close> is the string
  that the \<open>k\<close>-th call returns when it is asked for \<open>n\<close> characters, and \<open>hashCalls\<close>
  counts the calls made.
\<close>

record state =
  settings :: "QString \<rightharpoonup> QVariant"
  m_jid :: QString
  m_jidResourcePrefix :: QString
  m_jidResource :: QString
  m_password :: QString
  m_host :: QString
  m_port :: int
  m_customConnectionSettingsEnabled :: bool
  m_hasNewCredentials :: bool
  trace :: "event list"
  stanzaHash :: "nat \<Rightarrow> nat \<Rightarrow> QString"
  hashCalls :: nat

definition PORT_DEFAULT :: int where
  "PORT_DEFAULT = 5222"

definition PORT_UNSET :: int where
  "PORT_UNSET = - 1"

definition observe :: "event \<Rightarrow> state \<Rightarrow> state" where
  "observe e w = w\<lparr>trace := trace w @ [e]\<rparr>"

definition QSettings_value :: "(QString \<rightharpoonup> QVariant) \<Rightarrow> QString \<Rightarrow> QVariant \<Rightarrow> QVariant" where
  "QSettings_value s key defaultValue =
     (case s key of None \<Rightarrow> defaultValue | Some v \<Rightarrow> v)"

definition QSettings_setValue :: "QString \<Rightarrow> QVariant \<Rightarrow> state \<Rightarrow> state" where
  "QSettings_setValue key v w = w\<lparr>settings := (settings w)(key \<mapsto> v)\<rparr>"

definition QSettings_remove :: "QString \<Rightarrow> state \<Rightarrow> state" where
  "QSettings_remove key w = w\<lparr>settings := (settings w)(key := None)\<rparr>"

definition generateStanzaHash :: "nat \<Rightarrow> state \<Rightarrow> QString \<times> state" where
  "generateStanzaHash n w = (stanzaHash w (hashCalls w) n, w\<lparr>hashCalls := Suc (hashCalls w)\<rparr>)"

text \<open>
  The constructor: \<open>m_settings(settings), m_port(PORT_UNSET)\<close>; the strings are default
  constructed. The two bool members have no initialiser in the constructor, and the
  header that may give them one is not given: their first values are parameters.
\<close>

definition AccountManager ::
    "(QString \<rightharpoonup> QVariant) \<Rightarrow> bool \<Rightarrow> bool \<Rightarrow> (nat \<Rightarrow> nat \<Rightarrow> QString) \<Rightarrow> state" where
  "AccountManager s custom0 new0 rnd =
     \<lparr>settings = s, m_jid = [], m_jidResourcePrefix = [], m_jidResource = [],
      m_password = [], m_host = [], m_port = PORT_UNSET,
      m_customConnectionSettingsEnabled = custom0, m_hasNewCredentials = new0,
      trace = [], stanzaHash = rnd, hashCalls = 0\<rparr>"

subsection \<open>The methods\<close>

definition jid :: "state \<Rightarrow> QString \<times> state" where
  "jid w =
     (let w = observe Lock w;
          w = observe (Read M_jid) w;
          r = m_jid w;
          w = observe Unlock w
      in (r, w))"

definition setJid :: "QString \<Rightarrow> state \<Rightarrow> state" where
  "setJid jid' w =
     (let w = observe Lock w;
          w = observe (Write M_jid) (w\<lparr>m_jid := jid'\<rparr>);
          w = observe (Write M_hasNewCredentials) (w\<lparr>m_hasNewCredentials := True\<rparr>);
          w = observe Unlock w
      in observe (Emit jidChanged) w)"

definition generateJidResourceWithRandomSuffix :: "nat \<Rightarrow> state \<Rightarrow> QString \<times> state" where
  "generateJidResourceWithRandomSuffix n w =
     (let w = observe (Read M_jidResourcePrefix) w;
          (h, w) = generateStanzaHash n w
      in (m_jidResourcePrefix w @ ''.'' @ h, w))"

definition setJidResourcePrefix :: "env \<Rightarrow> QString \<Rightarrow> state \<Rightarrow> state" where
  "setJidResourcePrefix E jidResourcePrefix w =
     (let w = observe (Write M_jidResourcePrefix) (w\<lparr>m_jidResourcePrefix := jidResourcePrefix\<rparr>);
          (r, w) = generateJidResourceWithRandomSuffix (numberOfRandomSuffixCharacters E) w
      in observe (Write M_jidResource) (w\<lparr>m_jidResource := r\<rparr>))"

definition jidResource :: "env \<Rightarrow> state \<Rightarrow> QString \<times> state" where
  "jidResource E w =
     (let w = observe (Read M_jidResourcePrefix) w
      in if m_jidResourcePrefix w = []
         then generateJidResourceWithRandomSuffix (numberOfRandomSuffixCharacters E) w
         else (m_jidResource w, observe (Read M_jidResource) w))"

definition password :: "state \<Rightarrow> QString \<times> state" where
  "password w =
     (let w = observe Lock w;
          w = observe (Read M_password) w;
          r = m_password w;
          w = observe Unlock w
      in (r, w))"

definition setPassword :: "QString \<Rightarrow> state \<Rightarrow> state" where
  "setPassword password' w =
     (let w = observe Lock w;
          w = observe (Write M_password) (w\<lparr>m_password := password'\<rparr>);
          w = observe (Write M_hasNewCredentials) (w\<lparr>m_hasNewCredentials := True\<rparr>);
          w = observe Unlock w
      in observe (Emit passwordChanged) w)"

definition host :: "state \<Rightarrow> QString \<times> state" where
  "host w =
     (let w = observe Lock w;
          w = observe (Read M_host) w;
          r = m_host w;
          w = observe Unlock w
      in (r, w))"

definition setHost :: "QString \<Rightarrow> state \<Rightarrow> state" where
  "setHost host' w =
     (let w = observe Lock w;
          w = observe (Write M_host) (w\<lparr>m_host := host'\<rparr>);
          w = observe (Write M_hasNewCredentials) (w\<lparr>m_hasNewCredentials := True\<rparr>);
          w = observe Unlock w
      in observe (Emit hostChanged) w)"

definition resetHost :: "state \<Rightarrow> state" where
  "resetHost w = setHost [] w"

definition port :: "state \<Rightarrow> int \<times> state" where
  "port w =
     (let w = observe Lock w;
          w = observe (Read M_port) w;
          r = (if m_port w < 0 then PORT_DEFAULT else m_port w);
          w = observe Unlock w
      in (r, w))"

definition setPort :: "int \<Rightarrow> state \<Rightarrow> state" where
  "setPort port' w =
     (let w = observe Lock w;
          w = observe (Write M_port) (w\<lparr>m_port := port'\<rparr>);
          w = observe (Write M_hasNewCredentials) (w\<lparr>m_hasNewCredentials := True\<rparr>);
          w = observe Unlock w
      in observe (Emit portChanged) w)"

definition resetPort :: "state \<Rightarrow> state" where
  "resetPort w = setPort PORT_UNSET w"

definition customConnectionSettingsEnabled :: "env \<Rightarrow> state \<Rightarrow> bool \<times> state" where
  "customConnectionSettingsEnabled E w =
     (let w = observe Lock w;
          r = toBool E (QSettings_value (settings w) (KAIDAN_SETTINGS_AUTH_USE_CUSTOM E) Invalid);
          w = observe Unlock w
      in (r, w))"

definition setCustomConnectionSettingsEnabled :: "bool \<Rightarrow> state \<Rightarrow> state" where
  "setCustomConnectionSettingsEnabled enabled w =
     (let w = observe Lock w;
          w = observe (Write M_customConnectionSettingsEnabled)
                (w\<lparr>m_customConnectionSettingsEnabled := enabled\<rparr>);
          w = observe Unlock w
      in observe (Emit customConnectionSettingsEnabledChanged) w)"

definition hasNewCredentials :: "state \<Rightarrow> bool \<times> state" where
  "hasNewCredentials w = (m_hasNewCredentials w, observe (Read M_hasNewCredentials) w)"

definition setHasNewCredentials :: "bool \<Rightarrow> state \<Rightarrow> state" where
  "setHasNewCredentials hasNewCredentials' w =
     observe (Write M_hasNewCredentials) (w\<lparr>m_hasNewCredentials := hasNewCredentials'\<rparr>)"

text \<open>
  \<open>!(jid().isEmpty() || password().isEmpty())\<close>: \<open>||\<close> does not call \<open>password()\<close>
  when the JID is empty.
\<close>

definition hasEnoughCredentialsForLogin :: "state \<Rightarrow> bool \<times> state" where
  "hasEnoughCredentialsForLogin w =
     (let (j, w) = jid w
      in if j = [] then (False, w)
         else (let (p, w) = password w in (\<not> (p = []), w)))"

text \<open>
  \<open>loadCredentials()\<close>. The argument of each setter is read from the settings before the
  setter runs; \<open>value(key)\<close> without a default returns an invalid variant for a key that
  is not stored.
\<close>

definition loadCredentials :: "env \<Rightarrow> state \<Rightarrow> bool \<times> state" where
  "loadCredentials E w =
     (let (enough, w) = hasEnoughCredentialsForLogin w
      in if \<not> enough then
           (let w = setJid (toString E (QSettings_value (settings w) (KAIDAN_SETTINGS_AUTH_JID E) Invalid)) w;
                w = setPassword
                      (fromBase64 E
                         (toString E (QSettings_value (settings w) (KAIDAN_SETTINGS_AUTH_PASSWD E) Invalid))) w;
                w = setJidResourcePrefix E
                      (toString E
                         (QSettings_value (settings w) (KAIDAN_SETTINGS_AUTH_JID_RESOURCE_PREFIX E)
                            (VString (KAIDAN_JID_RESOURCE_DEFAULT_PREFIX E)))) w;
                w = setHost (toString E (QSettings_value (settings w) (KAIDAN_SETTINGS_AUTH_HOST E) Invalid)) w;
                w = setPort
                      (toInt E (QSettings_value (settings w) (KAIDAN_SETTINGS_AUTH_PORT E) (VInt PORT_UNSET))) w;
                w = observe (Write M_hasNewCredentials) (w\<lparr>m_hasNewCredentials := False\<rparr>);
                (enough, w) = hasEnoughCredentialsForLogin w
            in if \<not> enough then (False, observe (Emit newCredentialsNeeded) w)
               else (True, w))
         else (True, w))"

definition storeJid :: "env \<Rightarrow> state \<Rightarrow> state" where
  "storeJid E w =
     (let (j, w) = jid w
      in QSettings_setValue (KAIDAN_SETTINGS_AUTH_JID E) (VString j) w)"

definition storePassword :: "env \<Rightarrow> state \<Rightarrow> state" where
  "storePassword E w =
     (let (p, w) = password w
      in QSettings_setValue (KAIDAN_SETTINGS_AUTH_PASSWD E) (VString (toBase64 E p)) w)"

definition storeCustomConnectionSettings :: "env \<Rightarrow> state \<Rightarrow> state" where
  "storeCustomConnectionSettings E w =
     (let w = observe (Read M_host) w;
          w = (if m_host w \<noteq> []
               then QSettings_setValue (KAIDAN_SETTINGS_AUTH_HOST E) (VString (m_host w))
                      (observe (Read M_host) w)
               else w);
          w = observe (Read M_port) w
      in if m_port w \<noteq> PORT_UNSET
         then QSettings_setValue (KAIDAN_SETTINGS_AUTH_PORT E) (VInt (m_port w))
                (observe (Read M_port) w)
         else w)"

definition storeCredentials :: "env \<Rightarrow> state \<Rightarrow> state" where
  "storeCredentials E w =
     (let w = storeJid E w;
          w = storePassword E w
      in storeCustomConnectionSettings E w)"

text \<open>The loop \<open>for (const QString &key : keys) m_settings->remove(key);\<close>\<close>

fun deleteSettingsInSettingsFile :: "QString list \<Rightarrow> state \<Rightarrow> state" where
  "deleteSettingsInSettingsFile [] w = w"
| "deleteSettingsInSettingsFile (key # keys) w =
     deleteSettingsInSettingsFile keys (QSettings_remove key w)"

definition credentialKeys :: "env \<Rightarrow> QString list" where
  "credentialKeys E =
     [KAIDAN_SETTINGS_AUTH_JID E,
      KAIDAN_SETTINGS_AUTH_JID_RESOURCE_PREFIX E,
      KAIDAN_SETTINGS_AUTH_PASSWD E,
      KAIDAN_SETTINGS_AUTH_HOST E,
      KAIDAN_SETTINGS_AUTH_PORT E,
      KAIDAN_SETTINGS_AUTH_USE_CUSTOM E,
      KAIDAN_SETTINGS_AUTH_PASSWD_VISIBILITY E]"

definition deleteCredentials :: "env \<Rightarrow> state \<Rightarrow> state" where
  "deleteCredentials E w =
     (let w = deleteSettingsInSettingsFile (credentialKeys E) w;
          w = setJid [] w;
          w = observe (Write M_jidResourcePrefix) (w\<lparr>m_jidResourcePrefix := []\<rparr>);
          w = observe (Write M_jidResource) (w\<lparr>m_jidResource := []\<rparr>);
          w = setPassword [] w;
          w = resetHost w;
          w = resetPort w
      in observe (Emit newCredentialsNeeded) w)"

definition deleteSettings :: "env \<Rightarrow> state \<Rightarrow> state" where
  "deleteSettings E w =
     deleteSettingsInSettingsFile
       [KAIDAN_SETTINGS_AUTH_ONLINE E,
        KAIDAN_SETTINGS_NOTIFICATIONS_MUTED E,
        KAIDAN_SETTINGS_FAVORITE_EMOJIS E] w"

subsection \<open>Callers\<close>

text \<open>
  The signals emitted so far, oldest first.
\<close>

fun emitted_of :: "event list \<Rightarrow> signal list" where
  "emitted_of [] = []"
| "emitted_of (Emit s # es) = s # emitted_of es"
| "emitted_of (e # es) = emitted_of es"

definition emitted :: "state \<Rightarrow> signal list" where
  "emitted w = emitted_of (trace w)"

text \<open>
  The events that a method adds to a state: what \<open>w'\<close> has after the events of \<open>w\<close>.
\<close>

definition new_events :: "state \<Rightarrow> state \<Rightarrow> event list" where
  "new_events w w' = drop (length (trace w)) (trace w')"

text \<open>
  A caller uses the object through its public methods, in any order; the settings object
  is shared with the rest of the application (\<open>ClientWorker::Caches\<close> hands the same
  \<open>QSettings\<close> to everyone), so between two calls another component may set or remove a
  key. A \<open>call\<close> is one such step, \<open>exec\<close> runs it and drops the returned value, and
  \<open>run\<close> runs a list of them from left to right.
\<close>

datatype call =
  Call_jid | Call_setJid QString
  | Call_setJidResourcePrefix QString | Call_jidResource
  | Call_password | Call_setPassword QString
  | Call_host | Call_setHost QString | Call_resetHost
  | Call_port | Call_setPort int | Call_resetPort
  | Call_customConnectionSettingsEnabled | Call_setCustomConnectionSettingsEnabled bool
  | Call_hasNewCredentials | Call_setHasNewCredentials bool
  | Call_hasEnoughCredentialsForLogin | Call_loadCredentials
  | Call_storeJid | Call_storePassword | Call_storeCustomConnectionSettings
  | Call_storeCredentials | Call_deleteCredentials | Call_deleteSettings
  | Other_setValue QString QVariant | Other_remove QString

fun exec :: "env \<Rightarrow> call \<Rightarrow> state \<Rightarrow> state" where
  "exec E Call_jid w = snd (jid w)"
| "exec E (Call_setJid j) w = setJid j w"
| "exec E (Call_setJidResourcePrefix p) w = setJidResourcePrefix E p w"
| "exec E Call_jidResource w = snd (jidResource E w)"
| "exec E Call_password w = snd (password w)"
| "exec E (Call_setPassword p) w = setPassword p w"
| "exec E Call_host w = snd (host w)"
| "exec E (Call_setHost h) w = setHost h w"
| "exec E Call_resetHost w = resetHost w"
| "exec E Call_port w = snd (port w)"
| "exec E (Call_setPort p) w = setPort p w"
| "exec E Call_resetPort w = resetPort w"
| "exec E Call_customConnectionSettingsEnabled w = snd (customConnectionSettingsEnabled E w)"
| "exec E (Call_setCustomConnectionSettingsEnabled b) w = setCustomConnectionSettingsEnabled b w"
| "exec E Call_hasNewCredentials w = snd (hasNewCredentials w)"
| "exec E (Call_setHasNewCredentials b) w = setHasNewCredentials b w"
| "exec E Call_hasEnoughCredentialsForLogin w = snd (hasEnoughCredentialsForLogin w)"
| "exec E Call_loadCredentials w = snd (loadCredentials E w)"
| "exec E Call_storeJid w = storeJid E w"
| "exec E Call_storePassword w = storePassword E w"
| "exec E Call_storeCustomConnectionSettings w = storeCustomConnectionSettings E w"
| "exec E Call_storeCredentials w = storeCredentials E w"
| "exec E Call_deleteCredentials w = deleteCredentials E w"
| "exec E Call_deleteSettings w = deleteSettings E w"
| "exec E (Other_setValue key v) w = QSettings_setValue key v w"
| "exec E (Other_remove key) w = QSettings_remove key w"

fun run :: "env \<Rightarrow> call list \<Rightarrow> state \<Rightarrow> state" where
  "run E [] w = w"
| "run E (c # cs) w = run E cs (exec E c w)"

text \<open>
  The calls that can reset the flag for new credentials: \<open>setHasNewCredentials(false)\<close>,
  which is how the connection code clears the flag after a login, and
  \<open>loadCredentials()\<close>.
\<close>

fun clearsFlag :: "call \<Rightarrow> bool" where
  "clearsFlag (Call_setHasNewCredentials b) = (\<not> b)"
| "clearsFlag Call_loadCredentials = True"
| "clearsFlag c = False"

text \<open>
  The calls that can write the resource prefix: its setter, \<open>loadCredentials()\<close>, which
  calls the setter, and \<open>deleteCredentials()\<close>, which clears it.
\<close>

fun changesPrefix :: "call \<Rightarrow> bool" where
  "changesPrefix (Call_setJidResourcePrefix p) = True"
| "changesPrefix Call_loadCredentials = True"
| "changesPrefix Call_deleteCredentials = True"
| "changesPrefix c = False"

text \<open>
  The lock discipline, on the events of one call: \<open>guarded held es\<close> says that, with
  the mutex held or not at the start as \<open>held\<close> tells, the events \<open>es\<close> take the mutex
  only when it is free and release it only when it is held, read and write members only
  while it is held, emit signals only while it is not held, and leave it free.
\<close>

fun guarded :: "bool \<Rightarrow> event list \<Rightarrow> bool" where
  "guarded held [] = (\<not> held)"
| "guarded held (Lock # es) = (\<not> held \<and> guarded True es)"
| "guarded held (Unlock # es) = (held \<and> guarded False es)"
| "guarded held (Read m # es) = (held \<and> guarded held es)"
| "guarded held (Write m # es) = (held \<and> guarded held es)"
| "guarded held (Emit s # es) = (\<not> held \<and> guarded held es)"

subsection \<open>Login by URI (src/Kaidan.h)\<close>

text \<open>
  \<open>Kaidan.h\<close> declares \<open>Kaidan::logInByUri\<close> and \<open>Kaidan::logIn\<close> and documents the first;
  their bodies (\<open>Kaidan.cpp\<close>, \<open>ClientWorker.cpp\<close>) and the enumerations they use
  (\<open>Enums.h\<close>) are not given. The member \<open>m_connectionState\<close> of the class starts as
  \<open>StateDisconnected\<close>. The facade is modelled as the account manager, the connection
  state, and a count of the login attempts made.
\<close>

datatype ConnectionState = StateDisconnected | StateConnecting | StateConnected

datatype LoginByUriState = Connecting | PasswordNeeded | InvalidLoginUri

record kaidan =
  accountManager :: state
  m_connectionState :: ConnectionState
  loginAttempts :: nat

text \<open>
  Modelled from the spec: the body of \<open>logIn\<close> is missing. The specification's connection
  state machine has the transition from Disconnected to Connecting on \<open>logIn\<close>, gated
  by \<open>hasEnoughCredentialsForLogin\<close>: with insufficient credentials the call does nothing
  but signal that credentials are needed.
\<close>

definition logIn :: "kaidan \<Rightarrow> kaidan" where
  "logIn k =
     (let k = k\<lparr>loginAttempts := Suc (loginAttempts k)\<rparr>;
          (enough, a) = hasEnoughCredentialsForLogin (accountManager k)
      in if \<not> enough then k\<lparr>accountManager := observe (Emit newCredentialsNeeded) a\<rparr>
         else if m_connectionState k = StateDisconnected
         then k\<lparr>accountManager := a, m_connectionState := StateConnecting\<rparr>
         else k\<lparr>accountManager := a\<rparr>)"

text \<open>
  Modelled from the spec: the parser of the login URI is missing. The specification's
  shape is \<open>xmpp:<address>?login[;password=<value>]\<close>. \<open>stripPrefix p s\<close> is the rest of
  \<open>s\<close> after the prefix \<open>p\<close>, when \<open>s\<close> starts with it; \<open>splitQuery\<close> cuts a string at its
  first question mark into the address and, when there is a question mark, the query.
\<close>

fun stripPrefix :: "QString \<Rightarrow> QString \<Rightarrow> QString option" where
  "stripPrefix [] s = Some s"
| "stripPrefix (p # ps) [] = None"
| "stripPrefix (p # ps) (c # cs) = (if p = c then stripPrefix ps cs else None)"

fun splitQuery :: "QString \<Rightarrow> QString \<times> QString option" where
  "splitQuery [] = ([], None)"
| "splitQuery (c # cs) =
     (if c = CHR ''?'' then ([], Some cs)
      else (let (a, q) = splitQuery cs in (c # a, q)))"

text \<open>
  Modelled from the spec: which queries are a login and which password they carry. The
  query of the shape is \<open>login\<close>, alone (the password is missing) or followed by
  \<open>;password=<value>\<close>, where the value may be empty (the empty marker). The result is
  the password, empty in the first case, and \<open>None\<close> for every other query.
\<close>

definition loginPassword :: "QString \<Rightarrow> QString option" where
  "loginPassword q =
     (if q = ''login'' then Some [] else stripPrefix ''login;password='' q)"

text \<open>
  Modelled from the spec: the parse of a login URI into an address and a password. A URI
  is of the shape when it starts with the scheme \<open>xmpp:\<close>, has a non-empty address up to
  its first question mark, and a login query after it. A URI without the \<open>login\<close>
  action is not of the shape, as the specification advises (the documentation of the
  declaration in \<open>Kaidan.h\<close> lists some of these as PasswordNeeded; the specification
  is followed here).
\<close>

definition parseLoginUri :: "QString \<Rightarrow> (QString \<times> QString) option" where
  "parseLoginUri uri =
     (case stripPrefix ''xmpp:'' uri of
        None \<Rightarrow> None
      | Some rest \<Rightarrow>
          (let (address, query) = splitQuery rest
           in if address = [] then None
              else (case query of
                      None \<Rightarrow> None
                    | Some q \<Rightarrow>
                        (case loginPassword q of
                           None \<Rightarrow> None
                         | Some pw \<Rightarrow> Some (address, pw)))))"

text \<open>
  Modelled from the spec: the body of \<open>logInByUri\<close> is missing. The specification has it
  return Connecting with the credentials extracted and the login attempted,
  PasswordNeeded with the address extracted when the password is missing or empty, and
  InvalidLoginUri for a URI that is not of the shape, and has it free of side effects
  except in the Connecting case. The result is the state together with the address and
  the password extracted (empty where none is); only the Connecting case changes the
  application: it hands the credentials to the account manager and logs in.
\<close>

definition logInByUri ::
    "QString \<Rightarrow> kaidan \<Rightarrow> (LoginByUriState \<times> QString \<times> QString) \<times> kaidan" where
  "logInByUri uri k =
     (case parseLoginUri uri of
        None \<Rightarrow> ((InvalidLoginUri, [], []), k)
      | Some (address, pw) \<Rightarrow>
          if pw = [] then ((PasswordNeeded, address, []), k)
          else (let k = k\<lparr>accountManager := setJid address (accountManager k)\<rparr>;
                    k = k\<lparr>accountManager := setPassword pw (accountManager k)\<rparr>
                in ((Connecting, address, pw), logIn k)))"

subsection \<open>Values to evaluate at\<close>

text \<open>
  An environment and a random source for evaluating the model on concrete inputs. The
  keys are pairwise different strings; the codecs and conversions are stand-ins (the
  theorems do not depend on them).
\<close>

definition exampleEnv :: env where
  "exampleEnv =
     \<lparr>KAIDAN_SETTINGS_AUTH_ONLINE = ''auth/online'',
      KAIDAN_SETTINGS_AUTH_JID = ''auth/jid'',
      KAIDAN_SETTINGS_AUTH_JID_RESOURCE_PREFIX = ''auth/jidResourcePrefix'',
      KAIDAN_SETTINGS_AUTH_PASSWD = ''auth/password'',
      KAIDAN_SETTINGS_AUTH_HOST = ''auth/host'',
      KAIDAN_SETTINGS_AUTH_PORT = ''auth/port'',
      KAIDAN_SETTINGS_AUTH_USE_CUSTOM = ''auth/useCustomConnectionSettings'',
      KAIDAN_SETTINGS_AUTH_PASSWD_VISIBILITY = ''auth/passwordVisibility'',
      KAIDAN_SETTINGS_NOTIFICATIONS_MUTED = ''muted/'',
      KAIDAN_SETTINGS_FAVORITE_EMOJIS = ''emojis/favorites'',
      KAIDAN_JID_RESOURCE_DEFAULT_PREFIX = ''Kaidan'',
      numberOfRandomSuffixCharacters = 4,
      fromBase64 = (\<lambda>s. s),
      toBase64 = (\<lambda>s. s),
      QString_toInt = (\<lambda>s. 0),
      QString_number = (\<lambda>i. []),
      QString_toLower = (\<lambda>s. s)\<rparr>"

definition exampleHashes :: "nat \<Rightarrow> nat \<Rightarrow> QString" where
  "exampleHashes k n = take n (if even k then ''a1B2c3D4'' else ''Zy9Xw8Vu'')"

text \<open>The object as constructed on an empty settings file.\<close>

definition freshManager :: state where
  "freshManager = AccountManager Map.empty False False exampleHashes"

text \<open>The same after the user has entered a JID and a password.\<close>

definition aliceManager :: state where
  "aliceManager = setPassword ''secret'' (setJid ''alice@example.org'' freshManager)"


text \<open>
  The object after start-up on an empty settings file: \<open>loadCredentials()\<close> has run, found
  nothing, and left the flag for new credentials false.
\<close>

definition loadedManager :: state where
  "loadedManager = snd (loadCredentials exampleEnv freshManager)"

text \<open>The application after start-up on an empty settings file, disconnected.\<close>

definition startedKaidan :: kaidan where
  "startedKaidan =
     \<lparr>accountManager = loadedManager, m_connectionState = StateDisconnected, loginAttempts = 0\<rparr>"

section \<open>Properties\<close>

subsection \<open>Closed forms of the methods\<close>

text \<open>
  Each method, written as one update of the state: which members it writes and which
  events it adds.
\<close>

lemma jid_eq: "jid w = (m_jid w, w\<lparr>trace := trace w @ [Lock, Read M_jid, Unlock]\<rparr>)"
  by (simp add: jid_def observe_def)

lemma password_eq:
  "password w = (m_password w, w\<lparr>trace := trace w @ [Lock, Read M_password, Unlock]\<rparr>)"
  by (simp add: password_def observe_def)

lemma setJid_eq:
  "setJid j w = w\<lparr>m_jid := j, m_hasNewCredentials := True,
     trace := trace w @ [Lock, Write M_jid, Write M_hasNewCredentials, Unlock, Emit jidChanged]\<rparr>"
  by (simp add: setJid_def observe_def)

lemma setPassword_eq:
  "setPassword p w = w\<lparr>m_password := p, m_hasNewCredentials := True,
     trace := trace w @ [Lock, Write M_password, Write M_hasNewCredentials, Unlock, Emit passwordChanged]\<rparr>"
  by (simp add: setPassword_def observe_def)

lemma setHost_eq:
  "setHost h w = w\<lparr>m_host := h, m_hasNewCredentials := True,
     trace := trace w @ [Lock, Write M_host, Write M_hasNewCredentials, Unlock, Emit hostChanged]\<rparr>"
  by (simp add: setHost_def observe_def)

lemma setPort_eq:
  "setPort p w = w\<lparr>m_port := p, m_hasNewCredentials := True,
     trace := trace w @ [Lock, Write M_port, Write M_hasNewCredentials, Unlock, Emit portChanged]\<rparr>"
  by (simp add: setPort_def observe_def)

lemma host_eq: "host w = (m_host w, w\<lparr>trace := trace w @ [Lock, Read M_host, Unlock]\<rparr>)"
  by (simp add: host_def observe_def)

lemma port_eq:
  "port w = (if m_port w < 0 then PORT_DEFAULT else m_port w,
             w\<lparr>trace := trace w @ [Lock, Read M_port, Unlock]\<rparr>)"
  by (simp add: port_def observe_def)

lemma customConnectionSettingsEnabled_eq:
  "customConnectionSettingsEnabled E w =
     (toBool E (QSettings_value (settings w) (KAIDAN_SETTINGS_AUTH_USE_CUSTOM E) Invalid),
      w\<lparr>trace := trace w @ [Lock, Unlock]\<rparr>)"
  by (simp add: customConnectionSettingsEnabled_def observe_def)

lemma setCustomConnectionSettingsEnabled_eq:
  "setCustomConnectionSettingsEnabled b w =
     w\<lparr>m_customConnectionSettingsEnabled := b,
       trace := trace w @ [Lock, Write M_customConnectionSettingsEnabled, Unlock,
                           Emit customConnectionSettingsEnabledChanged]\<rparr>"
  by (simp add: setCustomConnectionSettingsEnabled_def observe_def)

lemma setJidResourcePrefix_eq:
  "setJidResourcePrefix E p w = w\<lparr>m_jidResourcePrefix := p,
     m_jidResource := p @ ''.'' @ stanzaHash w (hashCalls w) (numberOfRandomSuffixCharacters E),
     trace := trace w @ [Write M_jidResourcePrefix, Read M_jidResourcePrefix, Write M_jidResource],
     hashCalls := Suc (hashCalls w)\<rparr>"
  by (simp add: setJidResourcePrefix_def generateJidResourceWithRandomSuffix_def generateStanzaHash_def observe_def)

lemma jidResource_eq:
  "jidResource E w =
     (if m_jidResourcePrefix w = []
      then (''.'' @ stanzaHash w (hashCalls w) (numberOfRandomSuffixCharacters E),
            w\<lparr>trace := trace w @ [Read M_jidResourcePrefix, Read M_jidResourcePrefix],
              hashCalls := Suc (hashCalls w)\<rparr>)
      else (m_jidResource w,
            w\<lparr>trace := trace w @ [Read M_jidResourcePrefix, Read M_jidResource]\<rparr>))"
  by (simp add: jidResource_def generateJidResourceWithRandomSuffix_def generateStanzaHash_def observe_def)

lemma hasEnough_eq:
  "hasEnoughCredentialsForLogin w =
     (m_jid w \<noteq> [] \<and> m_password w \<noteq> [],
      w\<lparr>trace := trace w @ (if m_jid w = [] then [Lock, Read M_jid, Unlock]
          else [Lock, Read M_jid, Unlock, Lock, Read M_password, Unlock])\<rparr>)"
  by (simp add: hasEnoughCredentialsForLogin_def jid_eq password_eq)

lemma delSettings_frame:
  "deleteSettingsInSettingsFile ks w = w\<lparr>settings := (\<lambda>k. if k \<in> set ks then None else settings w k)\<rparr>"
  by (induction ks arbitrary: w) (auto simp: QSettings_remove_def fun_eq_iff)

lemma emitted_of_append: "emitted_of (xs @ ys) = emitted_of xs @ emitted_of ys"
  by (induction xs rule: emitted_of.induct) simp_all

lemma loadCredentials_eq:
  "loadCredentials E w =
   (if m_jid w \<noteq> [] \<and> m_password w \<noteq> []
    then (True, w\<lparr>trace := trace w @ [Lock, Read M_jid, Unlock, Lock, Read M_password, Unlock]\<rparr>)
    else
     (let j = toString E (QSettings_value (settings w) (KAIDAN_SETTINGS_AUTH_JID E) Invalid);
          p = fromBase64 E (toString E (QSettings_value (settings w) (KAIDAN_SETTINGS_AUTH_PASSWD E) Invalid));
          x = toString E (QSettings_value (settings w) (KAIDAN_SETTINGS_AUTH_JID_RESOURCE_PREFIX E)
                (VString (KAIDAN_JID_RESOURCE_DEFAULT_PREFIX E)));
          h = toString E (QSettings_value (settings w) (KAIDAN_SETTINGS_AUTH_HOST E) Invalid);
          n = toInt E (QSettings_value (settings w) (KAIDAN_SETTINGS_AUTH_PORT E) (VInt PORT_UNSET))
      in (j \<noteq> [] \<and> p \<noteq> [],
          w\<lparr>m_jid := j, m_jidResourcePrefix := x,
            m_jidResource := x @ ''.'' @ stanzaHash w (hashCalls w) (numberOfRandomSuffixCharacters E),
            m_password := p, m_host := h, m_port := n, m_hasNewCredentials := False,
            trace := trace w
              @ (if m_jid w = [] then [Lock, Read M_jid, Unlock]
                 else [Lock, Read M_jid, Unlock, Lock, Read M_password, Unlock])
              @ [Lock, Write M_jid, Write M_hasNewCredentials, Unlock, Emit jidChanged,
                 Lock, Write M_password, Write M_hasNewCredentials, Unlock, Emit passwordChanged,
                 Write M_jidResourcePrefix, Read M_jidResourcePrefix, Write M_jidResource,
                 Lock, Write M_host, Write M_hasNewCredentials, Unlock, Emit hostChanged,
                 Lock, Write M_port, Write M_hasNewCredentials, Unlock, Emit portChanged,
                 Write M_hasNewCredentials]
              @ (if j = [] then [Lock, Read M_jid, Unlock]
                 else [Lock, Read M_jid, Unlock, Lock, Read M_password, Unlock])
              @ (if j \<noteq> [] \<and> p \<noteq> [] then [] else [Emit newCredentialsNeeded]),
            hashCalls := Suc (hashCalls w)\<rparr>)))"
  by (simp add: loadCredentials_def hasEnough_eq setJid_eq setPassword_eq setHost_eq setPort_eq
      setJidResourcePrefix_eq observe_def Let_def)

lemma deleteCredentials_eq:
  "deleteCredentials E w =
     w\<lparr>settings := (\<lambda>k. if k \<in> set (credentialKeys E) then None else settings w k),
       m_jid := [], m_jidResourcePrefix := [], m_jidResource := [], m_password := [],
       m_host := [], m_port := PORT_UNSET, m_hasNewCredentials := True,
       trace := trace w @
         [Lock, Write M_jid, Write M_hasNewCredentials, Unlock, Emit jidChanged,
          Write M_jidResourcePrefix, Write M_jidResource,
          Lock, Write M_password, Write M_hasNewCredentials, Unlock, Emit passwordChanged,
          Lock, Write M_host, Write M_hasNewCredentials, Unlock, Emit hostChanged,
          Lock, Write M_port, Write M_hasNewCredentials, Unlock, Emit portChanged,
          Emit newCredentialsNeeded]\<rparr>"
  by (simp add: deleteCredentials_def delSettings_frame setJid_eq setPassword_eq resetHost_def
      resetPort_def setHost_eq setPort_eq observe_def)

lemma storeJid_eq:
  "storeJid E w =
     w\<lparr>settings := (settings w)(KAIDAN_SETTINGS_AUTH_JID E \<mapsto> VString (m_jid w)),
       trace := trace w @ [Lock, Read M_jid, Unlock]\<rparr>"
  by (simp add: storeJid_def jid_eq QSettings_setValue_def)

lemma storePassword_eq:
  "storePassword E w =
     w\<lparr>settings := (settings w)(KAIDAN_SETTINGS_AUTH_PASSWD E \<mapsto> VString (toBase64 E (m_password w))),
       trace := trace w @ [Lock, Read M_password, Unlock]\<rparr>"
  by (simp add: storePassword_def password_eq QSettings_setValue_def)

lemma storeCustomConnectionSettings_eq:
  "storeCustomConnectionSettings E w =
     w\<lparr>settings := (\<lambda>k.
          if k = KAIDAN_SETTINGS_AUTH_PORT E \<and> m_port w \<noteq> PORT_UNSET then Some (VInt (m_port w))
          else if k = KAIDAN_SETTINGS_AUTH_HOST E \<and> m_host w \<noteq> [] then Some (VString (m_host w))
          else settings w k),
       trace := trace w
         @ (if m_host w \<noteq> [] then [Read M_host, Read M_host] else [Read M_host])
         @ (if m_port w \<noteq> PORT_UNSET then [Read M_port, Read M_port] else [Read M_port])\<rparr>"
  by (auto simp add: storeCustomConnectionSettings_def QSettings_setValue_def observe_def Let_def fun_eq_iff)

lemma storeCredentials_eq:
  "storeCredentials E w =
     storeCustomConnectionSettings E (storePassword E (storeJid E w))"
  by (simp add: storeCredentials_def)

lemma hasNewCredentials_eq:
  "hasNewCredentials w = (m_hasNewCredentials w, w\<lparr>trace := trace w @ [Read M_hasNewCredentials]\<rparr>)"
  by (simp add: hasNewCredentials_def observe_def)

lemma setHasNewCredentials_eq:
  "setHasNewCredentials b w = w\<lparr>m_hasNewCredentials := b, trace := trace w @ [Write M_hasNewCredentials]\<rparr>"
  by (simp add: setHasNewCredentials_def observe_def)

lemma deleteSettings_eq:
  "deleteSettings E w =
     w\<lparr>settings := (\<lambda>k. if k \<in> {KAIDAN_SETTINGS_AUTH_ONLINE E, KAIDAN_SETTINGS_NOTIFICATIONS_MUTED E,
                                  KAIDAN_SETTINGS_FAVORITE_EMOJIS E} then None else settings w k)\<rparr>"
  by (simp add: deleteSettings_def delSettings_frame)

lemmas closed_forms =
  jid_eq password_eq host_eq port_eq setJid_eq setPassword_eq setHost_eq setPort_eq
  resetHost_def resetPort_def customConnectionSettingsEnabled_eq setCustomConnectionSettingsEnabled_eq
  setJidResourcePrefix_eq jidResource_eq hasNewCredentials_eq setHasNewCredentials_eq hasEnough_eq
  storeJid_eq storePassword_eq storeCustomConnectionSettings_eq storeCredentials_eq
  deleteCredentials_eq deleteSettings_eq QSettings_setValue_def QSettings_remove_def

lemma fresh_fields:
  "m_jid freshManager = []" "m_password freshManager = []" "settings freshManager = Map.empty"
  "trace freshManager = []"
  by (simp_all add: freshManager_def AccountManager_def)

lemma alice_fields:
  "m_jid aliceManager = ''alice@example.org''" "m_password aliceManager = ''secret''"
  by (simp_all add: aliceManager_def setJid_eq setPassword_eq)

lemma loaded_fields:
  "m_hasNewCredentials loadedManager = False" "emitted loadedManager =
     [jidChanged, passwordChanged, hostChanged, portChanged, newCredentialsNeeded]"
  "m_jidResourcePrefix loadedManager = ''Kaidan''"
  "m_jidResource loadedManager = ''Kaidan.a1B2''"
  by (simp_all add: loadedManager_def loadCredentials_eq fresh_fields Let_def emitted_def
      QSettings_value_def exampleEnv_def freshManager_def AccountManager_def exampleHashes_def)

subsection \<open>What a call keeps\<close>

text \<open>
  A call that is not one of the resetting calls keeps the flag for new credentials
  true; a call that is not one of the prefix-writing calls keeps the resource prefix and
  the resource; and every call keeps the resource non-empty where the prefix is
  non-empty.
\<close>

lemma loadCredentials_members:
  "m_hasNewCredentials (snd (loadCredentials E w)) =
     (m_jid w \<noteq> [] \<and> m_password w \<noteq> [] \<and> m_hasNewCredentials w)"
  "m_jidResourcePrefix (snd (loadCredentials E w)) = [] \<or> m_jidResource (snd (loadCredentials E w)) \<noteq> []
     \<or> (m_jid w \<noteq> [] \<and> m_password w \<noteq> [] \<and> m_jidResourcePrefix w \<noteq> [] \<and> m_jidResource w = [])"
  by (simp_all add: loadCredentials_eq Let_def)

lemma exec_keeps_flag:
  "m_hasNewCredentials w \<Longrightarrow> \<not> clearsFlag c \<Longrightarrow> m_hasNewCredentials (exec E c w)"
  by (cases c) (simp_all add: closed_forms)

lemma run_keeps_flag:
  "m_hasNewCredentials w \<Longrightarrow> \<forall>c \<in> set cs. \<not> clearsFlag c \<Longrightarrow> m_hasNewCredentials (run E cs w)"
  by (induction cs arbitrary: w) (simp_all add: exec_keeps_flag)

lemma exec_keeps_prefix:
  "\<not> changesPrefix c \<Longrightarrow>
     m_jidResourcePrefix (exec E c w) = m_jidResourcePrefix w \<and> m_jidResource (exec E c w) = m_jidResource w"
  by (cases c) (simp_all add: closed_forms)

lemma run_keeps_prefix:
  "\<forall>c \<in> set cs. \<not> changesPrefix c \<Longrightarrow>
     m_jidResourcePrefix (run E cs w) = m_jidResourcePrefix w \<and> m_jidResource (run E cs w) = m_jidResource w"
  by (induction cs arbitrary: w) (simp_all add: exec_keeps_prefix)

lemma exec_resource_nonempty:
  assumes "m_jidResourcePrefix w = [] \<or> m_jidResource w \<noteq> []"
  shows "m_jidResourcePrefix (exec E c w) = [] \<or> m_jidResource (exec E c w) \<noteq> []"
proof (cases "changesPrefix c")
  case False
  then show ?thesis using assms exec_keeps_prefix [of c E w] by simp
next
  case True
  then show ?thesis using assms loadCredentials_members(2) [of E w]
    by (cases c) (auto simp add: setJidResourcePrefix_eq deleteCredentials_eq)
qed

lemma run_resource_nonempty:
  "m_jidResourcePrefix w = [] \<or> m_jidResource w \<noteq> [] \<Longrightarrow>
   m_jidResourcePrefix (run E cs w) = [] \<or> m_jidResource (run E cs w) \<noteq> []"
proof (induction cs arbitrary: w)
  case Nil
  then show ?case by simp
next
  case (Cons c cs)
  from Cons.prems have "m_jidResourcePrefix (exec E c w) = [] \<or> m_jidResource (exec E c w) \<noteq> []"
    by (rule exec_resource_nonempty)
  then show ?case using Cons.IH by simp
qed

subsection \<open>Credentials for a login\<close>

text \<open>
  C1. For every state, \<open>hasEnoughCredentialsForLogin()\<close> returns true if and only if the
  stored JID and the stored password are both non-empty. Nothing else about the two
  strings matters: a string of blanks or of any other characters is non-empty.
\<close>

theorem hasEnoughCredentialsForLogin_iff:
  "fst (hasEnoughCredentialsForLogin w) = (m_jid w \<noteq> [] \<and> m_password w \<noteq> [])"
  by (simp add: hasEnoughCredentialsForLogin_def jid_eq password_eq)

subsection \<open>Loading the credentials\<close>

text \<open>
  C2. When the credentials are already sufficient, \<open>loadCredentials()\<close> returns true and
  the state differs from the one before only by the events of the two getters: no
  member is written and no signal is emitted. Otherwise the JID, the password (base64
  decoded), the resource prefix (the default prefix when the key is not stored), the host
  and the port (the unset value when the key is not stored) are read from the settings,
  which stay as they are; the flag for new credentials is false afterwards; the result
  is whether the loaded credentials are sufficient; and \<open>newCredentialsNeeded\<close> is
  emitted, after the four change signals of the setters, exactly when the result is
  false.
\<close>

theorem loadCredentials_spec:
  "(fst (hasEnoughCredentialsForLogin w) \<longrightarrow>
      loadCredentials E w =
        (True, w\<lparr>trace := trace w @ [Lock, Read M_jid, Unlock, Lock, Read M_password, Unlock]\<rparr>))
   \<and> (\<not> fst (hasEnoughCredentialsForLogin w) \<longrightarrow>
      (let r = fst (loadCredentials E w); w' = snd (loadCredentials E w)
       in settings w' = settings w
        \<and> m_jid w' = toString E (QSettings_value (settings w) (KAIDAN_SETTINGS_AUTH_JID E) Invalid)
        \<and> m_password w' =
            fromBase64 E (toString E (QSettings_value (settings w) (KAIDAN_SETTINGS_AUTH_PASSWD E) Invalid))
        \<and> m_jidResourcePrefix w' =
            (case settings w (KAIDAN_SETTINGS_AUTH_JID_RESOURCE_PREFIX E) of
               None \<Rightarrow> KAIDAN_JID_RESOURCE_DEFAULT_PREFIX E
             | Some v \<Rightarrow> toString E v)
        \<and> m_host w' = toString E (QSettings_value (settings w) (KAIDAN_SETTINGS_AUTH_HOST E) Invalid)
        \<and> m_port w' =
            (case settings w (KAIDAN_SETTINGS_AUTH_PORT E) of
               None \<Rightarrow> PORT_UNSET
             | Some v \<Rightarrow> toInt E v)
        \<and> m_hasNewCredentials w' = False
        \<and> r = fst (hasEnoughCredentialsForLogin w')
        \<and> emitted w' = emitted w @ [jidChanged, passwordChanged, hostChanged, portChanged]
                         @ (if r then [] else [newCredentialsNeeded])))"
proof (intro conjI impI)
  assume "fst (hasEnoughCredentialsForLogin w)"
  then show "loadCredentials E w =
        (True, w\<lparr>trace := trace w @ [Lock, Read M_jid, Unlock, Lock, Read M_password, Unlock]\<rparr>)"
    by (simp add: hasEnough_eq loadCredentials_eq)
next
  assume "\<not> fst (hasEnoughCredentialsForLogin w)"
  then have ne: "\<not> (m_jid w \<noteq> [] \<and> m_password w \<noteq> [])"
    by (simp add: hasEnough_eq)
  show "let r = fst (loadCredentials E w); w' = snd (loadCredentials E w)
       in settings w' = settings w
        \<and> m_jid w' = toString E (QSettings_value (settings w) (KAIDAN_SETTINGS_AUTH_JID E) Invalid)
        \<and> m_password w' =
            fromBase64 E (toString E (QSettings_value (settings w) (KAIDAN_SETTINGS_AUTH_PASSWD E) Invalid))
        \<and> m_jidResourcePrefix w' =
            (case settings w (KAIDAN_SETTINGS_AUTH_JID_RESOURCE_PREFIX E) of
               None \<Rightarrow> KAIDAN_JID_RESOURCE_DEFAULT_PREFIX E
             | Some v \<Rightarrow> toString E v)
        \<and> m_host w' = toString E (QSettings_value (settings w) (KAIDAN_SETTINGS_AUTH_HOST E) Invalid)
        \<and> m_port w' =
            (case settings w (KAIDAN_SETTINGS_AUTH_PORT E) of
               None \<Rightarrow> PORT_UNSET
             | Some v \<Rightarrow> toInt E v)
        \<and> m_hasNewCredentials w' = False
        \<and> r = fst (hasEnoughCredentialsForLogin w')
        \<and> emitted w' = emitted w @ [jidChanged, passwordChanged, hostChanged, portChanged]
                         @ (if r then [] else [newCredentialsNeeded])"
    unfolding loadCredentials_eq [of E w] Let_def using ne
    by (simp add: hasEnough_eq emitted_def emitted_of_append QSettings_value_def split: option.split)
qed

theorem loadCredentials_spec_witness:
  "fst (hasEnoughCredentialsForLogin aliceManager)
   \<and> fst (loadCredentials exampleEnv aliceManager)
   \<and> \<not> fst (hasEnoughCredentialsForLogin freshManager)
   \<and> \<not> fst (loadCredentials exampleEnv freshManager)
   \<and> m_jidResourcePrefix (snd (loadCredentials exampleEnv freshManager)) = ''Kaidan''
   \<and> emitted (snd (loadCredentials exampleEnv freshManager)) =
       [jidChanged, passwordChanged, hostChanged, portChanged, newCredentialsNeeded]"
  using loadCredentials_spec [of aliceManager exampleEnv] loadCredentials_spec [of freshManager exampleEnv]
  by (simp add: hasEnough_eq fresh_fields alice_fields Let_def exampleEnv_def QSettings_value_def emitted_def)

subsection \<open>Deleting the credentials\<close>



text \<open>
  C10. Right after \<open>deleteCredentials()\<close>, \<open>hasNewCredentials()\<close> returns true, in every
  state and whatever the flag was before: the fields are cleared through the setters,
  which set the flag, and nothing resets it.
\<close>

theorem deleteCredentials_hasNewCredentials:
  "fst (hasNewCredentials (deleteCredentials E w)) = True"
  by (simp add: hasNewCredentials_def deleteCredentials_eq)

subsection \<open>Custom connection settings\<close>

text \<open>
  C7. \<open>PORT_UNSET\<close> is no valid port (none of the numbers from 0 on). The constructor
  and \<open>resetPort()\<close> store it, and \<open>port()\<close> then returns 5222 and leaves the stored
  value as it is; after \<open>setPort(p)\<close> with \<open>p\<close> from 0 on, \<open>port()\<close> returns \<open>p\<close>.
  \<open>storeCustomConnectionSettings()\<close> writes the port under its key exactly when it is
  not \<open>PORT_UNSET\<close> and the host under its key exactly when it is not empty, and changes
  no other key; with neither set, the settings stay as they are.
\<close>

theorem port_default_at_read_time:
  "(\<forall>p. 0 \<le> p \<longrightarrow> p \<noteq> PORT_UNSET)
   \<and> m_port (AccountManager s c n rnd) = PORT_UNSET
   \<and> fst (port (AccountManager s c n rnd)) = 5222
   \<and> m_port (resetPort w) = PORT_UNSET
   \<and> fst (port (resetPort w)) = 5222
   \<and> m_port (snd (port w)) = m_port w
   \<and> (0 \<le> p \<longrightarrow> m_port (setPort p w) = p \<and> fst (port (setPort p w)) = p)
   \<and> (\<forall>k. settings (storeCustomConnectionSettings E w) k =
        (if k = KAIDAN_SETTINGS_AUTH_PORT E \<and> m_port w \<noteq> PORT_UNSET then Some (VInt (m_port w))
         else if k = KAIDAN_SETTINGS_AUTH_HOST E \<and> m_host w \<noteq> [] then Some (VString (m_host w))
         else settings w k))
   \<and> (m_host w = [] \<and> m_port w = PORT_UNSET \<longrightarrow>
        settings (storeCustomConnectionSettings E w) = settings w)"
  by (auto simp add: port_eq resetPort_def setPort_eq AccountManager_def PORT_UNSET_def PORT_DEFAULT_def
      storeCustomConnectionSettings_eq)

theorem port_default_at_read_time_witness:
  "(0::int) \<le> 5223
   \<and> fst (port (setPort 5223 freshManager)) = 5223
   \<and> m_host freshManager = [] \<and> m_port freshManager = PORT_UNSET
   \<and> settings (storeCustomConnectionSettings exampleEnv freshManager) = Map.empty
   \<and> settings (storeCustomConnectionSettings exampleEnv (setPort 5223 freshManager)) ''auth/port'' = Some (VInt 5223)"
  using port_default_at_read_time [of Map.empty False False exampleHashes freshManager 5223 exampleEnv]
    port_default_at_read_time [of Map.empty False False exampleHashes "setPort 5223 freshManager" 5223 exampleEnv]
  by (simp add: freshManager_def AccountManager_def setPort_eq PORT_UNSET_def exampleEnv_def)

text \<open>
  C9. \<open>customConnectionSettingsEnabled()\<close> returns what the settings hold under the key
  \<open>KAIDAN_SETTINGS_AUTH_USE_CUSTOM\<close>, converted to bool. The setter writes only the
  member \<open>m_customConnectionSettingsEnabled\<close> and not the settings, so the getter's
  result after the setter does not depend on the value set: for one of the two booleans
  the getter returns something else than what was just set.
\<close>

theorem customConnectionSettingsEnabled_reads_settings:
  "fst (customConnectionSettingsEnabled E (setCustomConnectionSettingsEnabled b w)) =
     toBool E (QSettings_value (settings w) (KAIDAN_SETTINGS_AUTH_USE_CUSTOM E) Invalid)
   \<and> m_customConnectionSettingsEnabled (setCustomConnectionSettingsEnabled b w) = b
   \<and> settings (setCustomConnectionSettingsEnabled b w) = settings w
   \<and> (\<exists>b'. fst (customConnectionSettingsEnabled E (setCustomConnectionSettingsEnabled b' w)) \<noteq> b')"
proof -
  let ?stored = "toBool E (QSettings_value (settings w) (KAIDAN_SETTINGS_AUTH_USE_CUSTOM E) Invalid)"
  have get: "fst (customConnectionSettingsEnabled E (setCustomConnectionSettingsEnabled b' w)) = ?stored"
    for b'
    by (simp add: customConnectionSettingsEnabled_eq setCustomConnectionSettingsEnabled_eq)
  have "fst (customConnectionSettingsEnabled E (setCustomConnectionSettingsEnabled (\<not> ?stored) w))
        \<noteq> (\<not> ?stored)"
    unfolding get by blast
  then have differs:
    "\<exists>b'. fst (customConnectionSettingsEnabled E (setCustomConnectionSettingsEnabled b' w)) \<noteq> b'"
    by (rule exI)
  have member: "m_customConnectionSettingsEnabled (setCustomConnectionSettingsEnabled b w) = b"
    by (simp add: setCustomConnectionSettingsEnabled_eq)
  have same: "settings (setCustomConnectionSettingsEnabled b w) = settings w"
    by (simp add: setCustomConnectionSettingsEnabled_eq)
  from get [of b] member same differs show ?thesis
    by (intro conjI)
qed

subsection \<open>The flag for new credentials\<close>

text \<open>
  C3, as the code has it. \<open>setJid\<close>, \<open>setPassword\<close>, \<open>setHost\<close> and \<open>setPort\<close> each set
  the flag for new credentials and emit the change signal of their field, and nothing
  else. \<open>setJidResourcePrefix\<close> writes the prefix and a resource made of the prefix, a
  dot and a fresh suffix, and leaves the flag as it was and emits no signal. Once the
  flag is true it stays true through every sequence of calls that has neither
  \<open>setHasNewCredentials(false)\<close> nor \<open>loadCredentials()\<close> in it.
\<close>

theorem identity_writes_mark_new_credentials:
  "m_hasNewCredentials (setJid j w) \<and> emitted (setJid j w) = emitted w @ [jidChanged]
   \<and> m_hasNewCredentials (setPassword pw w) \<and> emitted (setPassword pw w) = emitted w @ [passwordChanged]
   \<and> m_hasNewCredentials (setHost h w) \<and> emitted (setHost h w) = emitted w @ [hostChanged]
   \<and> m_hasNewCredentials (setPort n w) \<and> emitted (setPort n w) = emitted w @ [portChanged]
   \<and> m_jidResourcePrefix (setJidResourcePrefix E p w) = p
   \<and> m_jidResource (setJidResourcePrefix E p w) =
        p @ ''.'' @ stanzaHash w (hashCalls w) (numberOfRandomSuffixCharacters E)
   \<and> m_hasNewCredentials (setJidResourcePrefix E p w) = m_hasNewCredentials w
   \<and> emitted (setJidResourcePrefix E p w) = emitted w
   \<and> (m_hasNewCredentials w \<and> (\<forall>c \<in> set cs. \<not> clearsFlag c) \<longrightarrow> m_hasNewCredentials (run E cs w))"
  using run_keeps_flag [of w cs E]
  by (simp add: setJid_eq setPassword_eq setHost_eq setPort_eq setJidResourcePrefix_eq emitted_def
      emitted_of_append)

theorem identity_writes_mark_new_credentials_witness:
  "m_hasNewCredentials (setJid ''bob@example.org'' loadedManager)
   \<and> m_hasNewCredentials
        (run exampleEnv [Call_setJidResourcePrefix ''phone'', Call_storeCredentials, Call_jidResource,
                         Call_deleteCredentials]
           (setJid ''bob@example.org'' loadedManager))"
  using identity_writes_mark_new_credentials
    [of "''bob@example.org''" loadedManager "[]" "[]" 0 exampleEnv "[]"
        "[Call_setJidResourcePrefix ''phone'', Call_storeCredentials, Call_jidResource, Call_deleteCredentials]"]
    identity_writes_mark_new_credentials
    [of "''bob@example.org''" "setJid ''bob@example.org'' loadedManager" "[]" "[]" 0 exampleEnv "[]"
        "[Call_setJidResourcePrefix ''phone'', Call_storeCredentials, Call_jidResource, Call_deleteCredentials]"]
  by simp

text \<open>
  C3 as stated includes \<open>setJidResourcePrefix\<close> among the writes that set the flag and
  emit a signal. After start-up on an empty settings file the flag is false, and it is
  still false after \<open>setJidResourcePrefix("phone")\<close>, which emits nothing.
\<close>

theorem setJidResourcePrefix_keeps_flag_counterexample:
  "\<not> m_hasNewCredentials (setJidResourcePrefix exampleEnv ''phone'' loadedManager)
   \<and> emitted (setJidResourcePrefix exampleEnv ''phone'' loadedManager) = emitted loadedManager"
  by (simp add: setJidResourcePrefix_eq loaded_fields emitted_def emitted_of_append)

subsection \<open>The resource\<close>

text \<open>
  C6. After \<open>setJidResourcePrefix(p)\<close> with a non-empty \<open>p\<close>, and after any further calls
  none of which writes the prefix, \<open>jidResource()\<close> returns \<open>p\<close>, a dot and the suffix
  drawn when the prefix was set. With an empty prefix, two calls in a row return a dot
  followed by two successive draws of the random source, which may differ. In every
  state that calls can reach from the constructed object, \<open>jidResource()\<close> returns a
  non-empty string.
\<close>

theorem jidResource_cached:
  "(p \<noteq> [] \<and> (\<forall>c \<in> set cs. \<not> changesPrefix c) \<longrightarrow>
      fst (jidResource E (run E cs (setJidResourcePrefix E p w))) =
        p @ ''.'' @ stanzaHash w (hashCalls w) (numberOfRandomSuffixCharacters E))
   \<and> (m_jidResourcePrefix w = [] \<longrightarrow>
        fst (jidResource E w) = ''.'' @ stanzaHash w (hashCalls w) (numberOfRandomSuffixCharacters E)
      \<and> fst (jidResource E (snd (jidResource E w))) =
          ''.'' @ stanzaHash w (Suc (hashCalls w)) (numberOfRandomSuffixCharacters E))
   \<and> fst (jidResource E (run E cs' (AccountManager s c0 n0 rnd))) \<noteq> []"
proof (intro conjI impI)
  assume a: "p \<noteq> [] \<and> (\<forall>c \<in> set cs. \<not> changesPrefix c)"
  then have "m_jidResourcePrefix (run E cs (setJidResourcePrefix E p w)) = p"
    and "m_jidResource (run E cs (setJidResourcePrefix E p w)) =
           p @ ''.'' @ stanzaHash w (hashCalls w) (numberOfRandomSuffixCharacters E)"
    using run_keeps_prefix [of cs E "setJidResourcePrefix E p w"]
    by (simp_all add: setJidResourcePrefix_eq)
  with a show "fst (jidResource E (run E cs (setJidResourcePrefix E p w))) =
        p @ ''.'' @ stanzaHash w (hashCalls w) (numberOfRandomSuffixCharacters E)"
    by (simp add: jidResource_eq)
next
  assume "m_jidResourcePrefix w = []"
  then show "fst (jidResource E w) = ''.'' @ stanzaHash w (hashCalls w) (numberOfRandomSuffixCharacters E)"
    by (simp add: jidResource_eq)
next
  assume "m_jidResourcePrefix w = []"
  then show "fst (jidResource E (snd (jidResource E w))) =
          ''.'' @ stanzaHash w (Suc (hashCalls w)) (numberOfRandomSuffixCharacters E)"
    by (simp add: jidResource_eq)
next
  have "m_jidResourcePrefix (AccountManager s c0 n0 rnd) = []
        \<or> m_jidResource (AccountManager s c0 n0 rnd) \<noteq> []"
    by (simp add: AccountManager_def)
  then have "m_jidResourcePrefix (run E cs' (AccountManager s c0 n0 rnd)) = []
        \<or> m_jidResource (run E cs' (AccountManager s c0 n0 rnd)) \<noteq> []"
    by (rule run_resource_nonempty)
  then show "fst (jidResource E (run E cs' (AccountManager s c0 n0 rnd))) \<noteq> []"
    by (auto simp add: jidResource_eq)
qed

theorem jidResource_cached_witness:
  "fst (jidResource exampleEnv
          (run exampleEnv [Call_jidResource, Call_setJid ''bob@example.org'', Call_storeCredentials]
             (setJidResourcePrefix exampleEnv ''phone'' freshManager))) = ''phone.a1B2''
   \<and> m_jidResourcePrefix freshManager = []
   \<and> fst (jidResource exampleEnv freshManager) = ''.a1B2''
   \<and> fst (jidResource exampleEnv (snd (jidResource exampleEnv freshManager))) = ''.Zy9X''
   \<and> fst (jidResource exampleEnv (run exampleEnv [Call_loadCredentials, Call_deleteCredentials] freshManager))
       \<noteq> []"
  using jidResource_cached
    [of "''phone''" "[Call_jidResource, Call_setJid ''bob@example.org'', Call_storeCredentials]"
        exampleEnv freshManager "[Call_loadCredentials, Call_deleteCredentials]"
        Map.empty False False exampleHashes]
  by (simp add: freshManager_def AccountManager_def exampleEnv_def exampleHashes_def)

subsection \<open>The mutex\<close>

text \<open>
  C8, as the code has it. The getters and setters of the JID, the password, the host, the
  port and the custom connection settings take the mutex first, read or write only
  while they hold it, release it, and emit their signal only after that.
  \<open>setJidResourcePrefix\<close>, \<open>jidResource\<close>, \<open>hasNewCredentials\<close> and
  \<open>setHasNewCredentials\<close> read and write their members without taking the mutex, and
  emit nothing.
\<close>

theorem locked_accessors_guarded:
  "guarded False (new_events w (snd (jid w)))
   \<and> guarded False (new_events w (setJid j w))
   \<and> guarded False (new_events w (snd (password w)))
   \<and> guarded False (new_events w (setPassword pw w))
   \<and> guarded False (new_events w (snd (host w)))
   \<and> guarded False (new_events w (setHost h w))
   \<and> guarded False (new_events w (resetHost w))
   \<and> guarded False (new_events w (snd (port w)))
   \<and> guarded False (new_events w (setPort n w))
   \<and> guarded False (new_events w (resetPort w))
   \<and> guarded False (new_events w (snd (customConnectionSettingsEnabled E w)))
   \<and> guarded False (new_events w (setCustomConnectionSettingsEnabled b w))
   \<and> new_events w (setJidResourcePrefix E p w) =
        [Write M_jidResourcePrefix, Read M_jidResourcePrefix, Write M_jidResource]
   \<and> Lock \<notin> set (new_events w (snd (jidResource E w)))
   \<and> emitted_of (new_events w (snd (jidResource E w))) = []
   \<and> new_events w (snd (hasNewCredentials w)) = [Read M_hasNewCredentials]
   \<and> new_events w (setHasNewCredentials b' w) = [Write M_hasNewCredentials]"
  by (simp add: new_events_def closed_forms)

text \<open>
  C8 as stated has every accessor, the resource accessors too, hold the mutex while it
  reads or writes. The events of \<open>setJidResourcePrefix("phone")\<close> are two writes and a
  read with the mutex never taken.
\<close>

theorem setJidResourcePrefix_unguarded_counterexample:
  "\<not> guarded False (new_events loadedManager (setJidResourcePrefix exampleEnv ''phone'' loadedManager))"
  by (simp add: new_events_def setJidResourcePrefix_eq)

subsection \<open>Login by URI\<close>

text \<open>
  The parser accepts exactly the strings of the shape: \<open>xmpp:\<close>, a non-empty address
  without a question mark, and the query \<open>?login\<close> or \<open>?login;password=<value>\<close>.
\<close>

lemma logIn_enough:
  "m_jid (accountManager k) \<noteq> [] \<Longrightarrow> m_password (accountManager k) \<noteq> [] \<Longrightarrow>
   logIn k = k\<lparr>accountManager := (accountManager k)\<lparr>trace := trace (accountManager k)
                   @ [Lock, Read M_jid, Unlock, Lock, Read M_password, Unlock]\<rparr>,
              m_connectionState :=
                (if m_connectionState k = StateDisconnected then StateConnecting else m_connectionState k),
              loginAttempts := Suc (loginAttempts k)\<rparr>"
  by (simp add: logIn_def hasEnough_eq)

lemma stripPrefix_iff: "(stripPrefix p s = Some r) = (s = p @ r)"
  by (induction p s rule: stripPrefix.induct) auto

lemma splitQuery_append:
  "CHR ''?'' \<notin> set a \<Longrightarrow> splitQuery (a @ CHR ''?'' # q) = (a, Some q)"
  by (induction a) auto

lemma splitQuery_SomeD:
  "splitQuery s = (a, Some q) \<Longrightarrow> s = a @ CHR ''?'' # q \<and> CHR ''?'' \<notin> set a"
proof (induction s arbitrary: a)
  case Nil
  then show ?case by simp
next
  case (Cons c cs)
  show ?case
  proof (cases "c = CHR ''?''")
    case True
    with Cons.prems show ?thesis by simp
  next
    case False
    obtain a' q' where sq: "splitQuery cs = (a', q')"
      by (cases "splitQuery cs")
    with False Cons.prems have "a = c # a'" and "q' = Some q"
      by simp_all
    with sq Cons.IH [of a'] False show ?thesis by simp
  qed
qed

lemma loginPassword_iff:
  "(loginPassword q = Some v) = (q = ''login'' \<and> v = [] \<or> q = ''login;password='' @ v)"
  by (auto simp add: loginPassword_def stripPrefix_iff)

lemma parseLoginUri_SomeD:
  assumes "parseLoginUri uri = Some (a, v)"
  shows "a \<noteq> [] \<and> CHR ''?'' \<notin> set a
      \<and> (\<exists>q. uri = ''xmpp:'' @ a @ CHR ''?'' # q \<and> loginPassword q = Some v)"
proof -
  obtain rest where r: "stripPrefix ''xmpp:'' uri = Some rest"
    using assms by (cases "stripPrefix ''xmpp:'' uri") (simp_all add: parseLoginUri_def)
  obtain a' qo where s: "splitQuery rest = (a', qo)"
    by (cases "splitQuery rest")
  from assms r s have a': "a' \<noteq> []"
    by (cases "a' = []") (simp_all add: parseLoginUri_def)
  from assms r s a' obtain q where qo: "qo = Some q"
    by (cases qo) (simp_all add: parseLoginUri_def)
  from assms r s a' qo have l: "loginPassword q = Some v" and aa: "a' = a"
    by (cases "loginPassword q"; simp add: parseLoginUri_def)+
  from r have u: "uri = ''xmpp:'' @ rest"
    by (simp only: stripPrefix_iff)
  from s qo aa have "rest = a @ CHR ''?'' # q \<and> CHR ''?'' \<notin> set a"
    using splitQuery_SomeD [of rest a q] by simp
  with u a' aa l show ?thesis by blast
qed

lemma parseLoginUri_SomeI:
  assumes "a \<noteq> []" and "CHR ''?'' \<notin> set a" and "loginPassword q = Some v"
  shows "parseLoginUri (''xmpp:'' @ a @ CHR ''?'' # q) = Some (a, v)"
proof -
  have "stripPrefix ''xmpp:'' (''xmpp:'' @ a @ CHR ''?'' # q) = Some (a @ CHR ''?'' # q)"
    by (simp only: stripPrefix_iff)
  moreover have "splitQuery (a @ CHR ''?'' # q) = (a, Some q)"
    using assms(2) by (rule splitQuery_append)
  ultimately show ?thesis
    using assms(1,3) by (simp only: parseLoginUri_def Let_def option.case prod.case if_False)
qed

lemma parseLoginUri_iff:
  "(parseLoginUri uri = Some (a, v)) =
     (a \<noteq> [] \<and> CHR ''?'' \<notin> set a
      \<and> (\<exists>q. uri = ''xmpp:'' @ a @ CHR ''?'' # q \<and> loginPassword q = Some v))"
  using parseLoginUri_SomeD [of uri a v] parseLoginUri_SomeI [of a _ v] by blast


lemma loginPassword_forms:
  "loginPassword ''login'' = Some []"
  "loginPassword (''login;password='' @ v) = Some v"
  by (simp_all only: loginPassword_iff) simp_all

lemma parseLoginUri_forms:
  assumes "a \<noteq> []" and "CHR ''?'' \<notin> set a"
  shows "parseLoginUri (''xmpp:'' @ a @ ''?login'') = Some (a, [])"
    and "parseLoginUri (''xmpp:'' @ a @ ''?login;password='' @ v) = Some (a, v)"
  using parseLoginUri_SomeI [OF assms loginPassword_forms(1)]
    parseLoginUri_SomeI [OF assms loginPassword_forms(2) [of v]]
  by simp_all

lemma parseLoginUri_shape:
  "(parseLoginUri uri = None) =
     (\<not> (\<exists>a. a \<noteq> [] \<and> CHR ''?'' \<notin> set a
            \<and> (uri = ''xmpp:'' @ a @ ''?login''
               \<or> (\<exists>v. uri = ''xmpp:'' @ a @ ''?login;password='' @ v))))"
proof
  assume n: "parseLoginUri uri = None"
  show "\<not> (\<exists>a. a \<noteq> [] \<and> CHR ''?'' \<notin> set a
            \<and> (uri = ''xmpp:'' @ a @ ''?login''
               \<or> (\<exists>v. uri = ''xmpp:'' @ a @ ''?login;password='' @ v)))"
  proof
    assume "\<exists>a. a \<noteq> [] \<and> CHR ''?'' \<notin> set a
            \<and> (uri = ''xmpp:'' @ a @ ''?login''
               \<or> (\<exists>v. uri = ''xmpp:'' @ a @ ''?login;password='' @ v))"
    then obtain a where a: "a \<noteq> []" "CHR ''?'' \<notin> set a"
      and u: "uri = ''xmpp:'' @ a @ ''?login''
               \<or> (\<exists>v. uri = ''xmpp:'' @ a @ ''?login;password='' @ v)"
      by blast
    from u have "\<exists>v. parseLoginUri uri = Some (a, v)"
      using parseLoginUri_forms [OF a] by blast
    with n show False by simp
  qed
next
  assume s: "\<not> (\<exists>a. a \<noteq> [] \<and> CHR ''?'' \<notin> set a
            \<and> (uri = ''xmpp:'' @ a @ ''?login''
               \<or> (\<exists>v. uri = ''xmpp:'' @ a @ ''?login;password='' @ v)))"
  show "parseLoginUri uri = None"
  proof (cases "parseLoginUri uri")
    case None
    then show ?thesis .
  next
    case (Some av)
    obtain a v where av: "av = (a, v)" by (cases av)
    with Some have "a \<noteq> []" and "CHR ''?'' \<notin> set a"
      and "\<exists>q. uri = ''xmpp:'' @ a @ CHR ''?'' # q \<and> loginPassword q = Some v"
      using parseLoginUri_SomeD [of uri a v] by simp_all
    then obtain q where "a \<noteq> []" "CHR ''?'' \<notin> set a" "uri = ''xmpp:'' @ a @ CHR ''?'' # q"
      "q = ''login'' \<and> v = [] \<or> q = ''login;password='' @ v"
      unfolding loginPassword_iff by blast
    then have "\<exists>a. a \<noteq> [] \<and> CHR ''?'' \<notin> set a
            \<and> (uri = ''xmpp:'' @ a @ ''?login''
               \<or> (\<exists>v. uri = ''xmpp:'' @ a @ ''?login;password='' @ v))"
      by auto
    with s show ?thesis by blast
  qed
qed

lemma logInByUri_None:
  "parseLoginUri uri = None \<Longrightarrow> logInByUri uri k = ((InvalidLoginUri, [], []), k)"
  by (simp add: logInByUri_def)

lemma logInByUri_Some:
  "parseLoginUri uri = Some (a, v) \<Longrightarrow>
   logInByUri uri k =
     (if v = [] then ((PasswordNeeded, a, []), k)
      else ((Connecting, a, v),
            logIn (k\<lparr>accountManager := setPassword v (setJid a (accountManager k))\<rparr>)))"
  by (simp add: logInByUri_def Let_def)

lemma logInByUri_state:
  "fst (fst (logInByUri uri k)) = InvalidLoginUri \<longleftrightarrow> parseLoginUri uri = None"
  "fst (fst (logInByUri uri k)) \<noteq> Connecting \<Longrightarrow> snd (logInByUri uri k) = k"
  by (cases "parseLoginUri uri"; auto simp add: logInByUri_def Let_def split: if_splits)+


lemma alice_uri:
  "''xmpp:alice@example.org?login;password=secret''
     = ''xmpp:'' @ ''alice@example.org'' @ ''?login;password='' @ ''secret''"
  "''xmpp:alice@example.org?login;password=''
     = ''xmpp:'' @ ''alice@example.org'' @ ''?login;password='' @ []"
  "''alice@example.org'' \<noteq> []" "CHR ''?'' \<notin> set ''alice@example.org''"
  by simp_all

lemma not_a_uri: "parseLoginUri ''not-a-uri'' = None"
  by (simp add: parseLoginUri_def)

text \<open>
  C5, on the model of \<open>logInByUri\<close> written from the specification. The URI
  \<open>xmpp:alice@example.org?login;password=secret\<close> gives Connecting with the address
  \<open>alice@example.org\<close> and the password \<open>secret\<close> extracted and handed to the account
  manager, one login attempted, and the connection state Connecting when it was
  Disconnected; so does every URI of the shape with a non-empty password. The URI
  \<open>xmpp:alice@example.org?login;password=\<close> gives PasswordNeeded with only the address
  extracted and the application as it was; so does every URI of the shape whose
  password is missing or empty. \<open>not-a-uri\<close> gives InvalidLoginUri, and the result is
  InvalidLoginUri exactly for the strings that are not of the shape. Whenever the result
  is not Connecting, the application is as it was: no login is attempted, the connection
  state does not change, and the account manager is not touched.
\<close>

theorem logInByUri_spec:
  "(let r = logInByUri ''xmpp:alice@example.org?login;password=secret'' k
    in fst r = (Connecting, ''alice@example.org'', ''secret'')
     \<and> m_jid (accountManager (snd r)) = ''alice@example.org''
     \<and> m_password (accountManager (snd r)) = ''secret''
     \<and> loginAttempts (snd r) = Suc (loginAttempts k)
     \<and> (m_connectionState k = StateDisconnected \<longrightarrow> m_connectionState (snd r) = StateConnecting))
   \<and> logInByUri ''xmpp:alice@example.org?login;password='' k =
        ((PasswordNeeded, ''alice@example.org'', []), k)
   \<and> logInByUri ''not-a-uri'' k = ((InvalidLoginUri, [], []), k)
   \<and> (a \<noteq> [] \<and> CHR ''?'' \<notin> set a \<and> v \<noteq> [] \<longrightarrow>
        (let r = logInByUri (''xmpp:'' @ a @ ''?login;password='' @ v) k
         in fst r = (Connecting, a, v)
          \<and> m_jid (accountManager (snd r)) = a
          \<and> m_password (accountManager (snd r)) = v
          \<and> loginAttempts (snd r) = Suc (loginAttempts k)
          \<and> (m_connectionState k = StateDisconnected \<longrightarrow> m_connectionState (snd r) = StateConnecting)))
   \<and> (a \<noteq> [] \<and> CHR ''?'' \<notin> set a \<longrightarrow>
        logInByUri (''xmpp:'' @ a @ ''?login'') k = ((PasswordNeeded, a, []), k)
      \<and> logInByUri (''xmpp:'' @ a @ ''?login;password='') k = ((PasswordNeeded, a, []), k))
   \<and> (fst (fst (logInByUri uri k)) = InvalidLoginUri) =
        (\<not> (\<exists>a. a \<noteq> [] \<and> CHR ''?'' \<notin> set a
               \<and> (uri = ''xmpp:'' @ a @ ''?login''
                  \<or> (\<exists>v. uri = ''xmpp:'' @ a @ ''?login;password='' @ v))))
   \<and> (fst (fst (logInByUri uri k)) \<noteq> Connecting \<longrightarrow> snd (logInByUri uri k) = k)"
proof -
  have connecting:
    "let r = logInByUri (''xmpp:'' @ a @ ''?login;password='' @ v) k
     in fst r = (Connecting, a, v)
      \<and> m_jid (accountManager (snd r)) = a
      \<and> m_password (accountManager (snd r)) = v
      \<and> loginAttempts (snd r) = Suc (loginAttempts k)
      \<and> (m_connectionState k = StateDisconnected \<longrightarrow> m_connectionState (snd r) = StateConnecting)"
    if "a \<noteq> []" "CHR ''?'' \<notin> set a" "v \<noteq> []" for a v
    using that logInByUri_Some [OF parseLoginUri_forms(2) [OF that(1,2), of v], of k]
    by (simp add: Let_def logIn_enough setJid_eq setPassword_eq)
  have needed:
    "logInByUri (''xmpp:'' @ a @ ''?login'') k = ((PasswordNeeded, a, []), k)
     \<and> logInByUri (''xmpp:'' @ a @ ''?login;password='') k = ((PasswordNeeded, a, []), k)"
    if "a \<noteq> []" "CHR ''?'' \<notin> set a" for a
    using logInByUri_Some [OF parseLoginUri_forms(1) [OF that], of k]
      logInByUri_Some [OF parseLoginUri_forms(2) [OF that, of "[]"], of k]
    by simp
  have c1: "let r = logInByUri ''xmpp:alice@example.org?login;password=secret'' k
    in fst r = (Connecting, ''alice@example.org'', ''secret'')
     \<and> m_jid (accountManager (snd r)) = ''alice@example.org''
     \<and> m_password (accountManager (snd r)) = ''secret''
     \<and> loginAttempts (snd r) = Suc (loginAttempts k)
     \<and> (m_connectionState k = StateDisconnected \<longrightarrow> m_connectionState (snd r) = StateConnecting)"
    unfolding alice_uri(1) by (rule connecting) simp_all
  have c2: "logInByUri ''xmpp:alice@example.org?login;password='' k =
        ((PasswordNeeded, ''alice@example.org'', []), k)"
    using needed [of "''alice@example.org''"] by simp
  have c3: "logInByUri ''not-a-uri'' k = ((InvalidLoginUri, [], []), k)"
    using not_a_uri by (rule logInByUri_None)
  have c6: "(fst (fst (logInByUri uri k)) = InvalidLoginUri) =
        (\<not> (\<exists>a. a \<noteq> [] \<and> CHR ''?'' \<notin> set a
               \<and> (uri = ''xmpp:'' @ a @ ''?login''
                  \<or> (\<exists>v. uri = ''xmpp:'' @ a @ ''?login;password='' @ v))))"
    unfolding logInByUri_state(1) by (rule parseLoginUri_shape)
  have c7: "fst (fst (logInByUri uri k)) \<noteq> Connecting \<longrightarrow> snd (logInByUri uri k) = k"
    using logInByUri_state(2) by blast
  from c1 c2 c3 connecting [of a v] needed [of a] c6 c7 show ?thesis
    by (intro conjI impI) blast+
qed

theorem logInByUri_spec_witness:
  "m_connectionState startedKaidan = StateDisconnected
   \<and> m_connectionState (snd (logInByUri ''xmpp:alice@example.org?login;password=secret'' startedKaidan))
       = StateConnecting
   \<and> CHR ''?'' \<notin> set ''bob@example.org''
   \<and> logInByUri ''xmpp:bob@example.org?login;password=hunter2'' startedKaidan
       = ((Connecting, ''bob@example.org'', ''hunter2''),
          snd (logInByUri ''xmpp:bob@example.org?login;password=hunter2'' startedKaidan))
   \<and> logInByUri ''xmpp:bob@example.org?login'' startedKaidan
       = ((PasswordNeeded, ''bob@example.org'', []), startedKaidan)
   \<and> fst (fst (logInByUri ''xmpp:bob@example.org?join'' startedKaidan)) = InvalidLoginUri
   \<and> snd (logInByUri ''xmpp:bob@example.org?join'' startedKaidan) = startedKaidan
   \<and> fst (fst (logInByUri ''xmpp:bob@example.org'' startedKaidan)) = InvalidLoginUri"
proof -
  have join: "fst (fst (logInByUri ''xmpp:bob@example.org?join'' startedKaidan)) = InvalidLoginUri"
    by (simp add: logInByUri_state(1) parseLoginUri_def loginPassword_def)
  have bare: "fst (fst (logInByUri ''xmpp:bob@example.org'' startedKaidan)) = InvalidLoginUri"
    by (simp add: logInByUri_state(1) parseLoginUri_def)
  have st: "m_connectionState startedKaidan = StateDisconnected"
    by (simp add: startedKaidan_def)
  from join bare st
    logInByUri_spec [of startedKaidan "''bob@example.org''" "''hunter2''" "''xmpp:bob@example.org?join''"]
  show ?thesis
    by (simp add: Let_def prod_eq_iff)
qed

end
